theory Spec2Isabelle
  imports Main "HOL-Library.Word"
begin

section \<open>The I2S clock-divider logic of csky-i2s.c\<close>

text \<open>
  A shallow embedding of the divider calculators of
  \<^verbatim>\<open>addons/sound/soc/csky/csky-i2s.c\<close> and of \<^verbatim>\<open>csky_i2s_set_clk_rate\<close>,
  which calls them and programs the five divider registers.

  C \<^verbatim>\<open>unsigned int\<close> is \<^typ>\<open>32 word\<close>: \<open>+\<close>, \<open>-\<close> and \<open>*\<close> wrap, \<open>div\<close> and
  \<open>mod\<close> are the unsigned ones. A C \<^verbatim>\<open>int\<close> that a function returns is given as
  the \<^typ>\<open>int\<close> it denotes: \<open>sint\<close> of the 32-bit pattern, which is what the
  conversion from \<^verbatim>\<open>unsigned int\<close> yields on the compilers that build this driver.
  A division by zero is a CPU exception: the functions that can divide return
  an \<open>option\<close>, and \<open>None\<close> is that exception.
\<close>

type_synonym u32 = "32 word"

subsection \<open>Constants of the kernel headers\<close>

text \<open>\<^verbatim>\<open>EINVAL\<close> of errno-base.h; the functions return \<^verbatim>\<open>-EINVAL\<close>.\<close>

definition EINVAL :: int where
  "EINVAL = 22"

text \<open>The DAI format codes of sound/soc-dai.h, as stored in \<^verbatim>\<open>audio_fmt\<close>.\<close>

definition SND_SOC_DAIFMT_I2S :: u32 where
  "SND_SOC_DAIFMT_I2S = 1"

definition SND_SOC_DAIFMT_RIGHT_J :: u32 where
  "SND_SOC_DAIFMT_RIGHT_J = 2"

definition SND_SOC_DAIFMT_LEFT_J :: u32 where
  "SND_SOC_DAIFMT_LEFT_J = 3"

subsection \<open>The device state\<close>

text \<open>
  Modelled from the spec: the registers that \<^verbatim>\<open>csky_i2s_set_clk_rate\<close> writes, one
  per divider. Their offsets are macros of csky-i2s.h, which is missing; the model
  keeps the names.
\<close>

datatype reg = IIS_DIV0_LEVEL | IIS_DIV1_LEVEL | IIS_DIV2_LEVEL | IIS_DIV3_LEVEL | IIS_DIV4_LEVEL

text \<open>
  The \<^verbatim>\<open>dev_err\<close> lines of \<^verbatim>\<open>csky_i2s_calc_mclk_div\<close>, in the order of the source,
  with the values they print. Every one of them is followed by
  \<^verbatim>\<open>return -EINVAL\<close>; the line is what tells the failures apart.
\<close>

datatype msg =
    Mclk_not_multiple_of_fs
  | Invalid_mclk_fs_div u32
  | Mclk_ne_8_sclk
  | Mclk_ne_4_sclk
  | Mclk_mismatch u32 u32

text \<open>
  A clock of the kernel's clock framework, reduced to its rate, which is what
  \<^verbatim>\<open>clk_get_rate\<close> reads. \<^verbatim>\<open>clk_set_rate\<close> belongs to the kernel: the model
  takes it as a parameter, from the clock and the requested rate to the return
  code and the clock afterwards.
\<close>

datatype clk = Clk (clk_get_rate: u32)

type_synonym clk_set_rate = "clk \<Rightarrow> u32 \<Rightarrow> int \<times> clk"

text \<open>
  Modelled from the spec: \<^verbatim>\<open>struct csky_i2s_params\<close> of the missing csky-i2s.h, with
  the one field that \<^verbatim>\<open>params_csky_i2s_v1\<close> (false) and \<^verbatim>\<open>params_csky_i2s_v1_1\<close>
  (true) initialise.
\<close>

record csky_i2s_params =
  has_mclk_sclk_div :: bool

text \<open>
  Modelled from the spec: \<^verbatim>\<open>struct csky_i2s\<close> is declared in csky-i2s.h, which is
  missing. The fields are those the modelled functions use, with the types their
  uses in csky-i2s.c fix (\<^verbatim>\<open>of_property_read_u32\<close> into \<^verbatim>\<open>src_clk\<close> and
  \<^verbatim>\<open>sclk_fs_divider\<close>, \<^verbatim>\<open>unsigned int\<close> locals and parameters for the others).
  \<^verbatim>\<open>i2s_clk\<close> is \<open>None\<close> when the pointer is NULL or an error pointer, which is the
  case when the device tree gives a fixed \<^verbatim>\<open>clock-frequency\<close>. \<open>regs\<close> is the
  sequence of register writes made through \<^verbatim>\<open>i2s->regs\<close>, oldest first, and
  \<open>dev_log\<close> the lines printed through \<^verbatim>\<open>i2s->dev\<close>.
\<close>

record csky_i2s =
  i2s_clk :: "clk option"
  src_clk :: u32
  clk_fs_44k :: u32
  clk_fs_48k :: u32
  mclk :: u32
  sample_rate :: u32
  audio_fmt :: u32
  sclk_fs_divider :: u32
  mclk_fs_divider :: u32
  params :: csky_i2s_params
  regs :: "(reg \<times> u32) list"
  dev_log :: "msg list"

text \<open>
  Modelled from the spec: \<^verbatim>\<open>csky_i2s_writel\<close> is defined in the missing csky-i2s.h;
  it stores a 32-bit value in the register at the given offset.
\<close>

definition csky_i2s_writel :: "csky_i2s \<Rightarrow> reg \<Rightarrow> u32 \<Rightarrow> csky_i2s" where
  "csky_i2s_writel i2s r val = i2s\<lparr>regs := regs i2s @ [(r, val)]\<rparr>"

text \<open>\<^verbatim>\<open>dev_err\<close> of the kernel: one more line in the log.\<close>

definition dev_err :: "csky_i2s \<Rightarrow> msg \<Rightarrow> csky_i2s" where
  "dev_err i2s m = i2s\<lparr>dev_log := dev_log i2s @ [m]\<rparr>"

subsection \<open>The divider calculators\<close>

text \<open>
  \<^verbatim>\<open>csky_i2s_calc_mclk_div\<close>. The local \<^verbatim>\<open>div\<close> is kept as its bit pattern \<open>d\<close>;
  \<^verbatim>\<open>div >= 0\<close> is \<open>0 \<le> sint d\<close>, and \<^verbatim>\<open>2 * (div + 1)\<close>, converted to
  \<^verbatim>\<open>unsigned int\<close> for the division, is \<open>2 * (d + 1)\<close>. Lemma
  \<open>round_trip_fits_int\<close> below shows that this product stays below \<open>2^31\<close>
  whenever the division is reached, so the \<^verbatim>\<open>int\<close> arithmetic does not overflow.
\<close>

definition csky_i2s_calc_mclk_div :: "csky_i2s \<Rightarrow> u32 \<Rightarrow> u32 \<Rightarrow> (int \<times> csky_i2s) option" where
  "csky_i2s_calc_mclk_div i2s rate word_size =
    (let m = mclk i2s in
     if rate = 0 then None
     else if m mod rate \<noteq> 0 then Some (- EINVAL, dev_err i2s Mclk_not_multiple_of_fs)
     else
       let mclk_fs_div = m div rate in
       if has_mclk_sclk_div (params i2s) \<and>
          mclk_fs_div \<noteq> 256 \<and> mclk_fs_div \<noteq> 384 \<and> mclk_fs_div \<noteq> 512 \<and> mclk_fs_div \<noteq> 768
       then Some (- EINVAL, dev_err i2s (Invalid_mclk_fs_div mclk_fs_div))
       else if \<not> has_mclk_sclk_div (params i2s) \<and>
          (audio_fmt i2s = SND_SOC_DAIFMT_I2S \<or> audio_fmt i2s = SND_SOC_DAIFMT_LEFT_J) \<and>
          mclk_fs_div \<noteq> 8 * sclk_fs_divider i2s
       then Some (- EINVAL, dev_err i2s Mclk_ne_8_sclk)
       else if \<not> has_mclk_sclk_div (params i2s) \<and>
          \<not> (audio_fmt i2s = SND_SOC_DAIFMT_I2S \<or> audio_fmt i2s = SND_SOC_DAIFMT_LEFT_J) \<and>
          mclk_fs_div \<noteq> 4 * sclk_fs_divider i2s
       then Some (- EINVAL, dev_err i2s Mclk_ne_4_sclk)
       else
         let i2s = i2s\<lparr>mclk_fs_divider := mclk_fs_div\<rparr> in
         if m = 0 then None
         else
           let d = src_clk i2s div 2 div m - 1 in
           if 0 \<le> sint d then
             if 2 * (d + 1) = 0 then None
             else
               let tmp = src_clk i2s div (2 * (d + 1)) in
               if tmp \<noteq> m then Some (- EINVAL, dev_err i2s (Mclk_mismatch m tmp))
               else Some (sint d, i2s)
           else Some (sint d, i2s))"

text \<open>\<^verbatim>\<open>csky_i2s_calc_spdifclk_div\<close>: the constant 17.\<close>

definition csky_i2s_calc_spdifclk_div :: "csky_i2s \<Rightarrow> u32 \<Rightarrow> u32 \<Rightarrow> int" where
  "csky_i2s_calc_spdifclk_div i2s rate word_size = 17"

text \<open>\<^verbatim>\<open>csky_i2s_calc_fs_div\<close>: stores 64 in \<^verbatim>\<open>sclk_fs_divider\<close>, returns \<^verbatim>\<open>multi / 2 - 1\<close>.\<close>

definition csky_i2s_calc_fs_div :: "csky_i2s \<Rightarrow> u32 \<Rightarrow> int \<times> csky_i2s" where
  "csky_i2s_calc_fs_div i2s word_size =
    (let multi = (64 :: u32);
         i2s = i2s\<lparr>sclk_fs_divider := multi\<rparr>;
         d = multi div 2 - 1
     in (sint d, i2s))"

text \<open>\<^verbatim>\<open>csky_i2s_calc_sclk_div\<close>.\<close>

definition csky_i2s_calc_sclk_div :: "csky_i2s \<Rightarrow> int option" where
  "csky_i2s_calc_sclk_div i2s =
    (if sclk_fs_divider i2s = 0 then None
     else
       let multi = mclk_fs_divider i2s div sclk_fs_divider i2s;
           d = multi div 2 - 1
       in Some (sint d))"

text \<open>\<^verbatim>\<open>csky_i2s_calc_refclk_div\<close>: the \<^verbatim>\<open>switch\<close> on the rate, then the divider.\<close>

definition csky_i2s_calc_refclk_div :: "csky_i2s \<Rightarrow> u32 \<Rightarrow> int" where
  "csky_i2s_calc_refclk_div i2s rate =
    (if rate = 8000 \<or> rate = 16000 \<or> rate = 32000 \<or> rate = 48000 \<or> rate = 96000 then
       sint (src_clk i2s div 2 div 3072000 - 1)
     else if rate = 11025 \<or> rate = 22050 \<or> rate = 44100 \<or> rate = 88200 then
       sint (src_clk i2s div 2 div 2116800 - 1)
     else - EINVAL)"

subsection \<open>Setting the clock rate\<close>

text \<open>
  Lines 199 to 223 of \<^verbatim>\<open>csky_i2s_set_clk_rate\<close>: when the controller has a clock
  of its own, set it to the frequency of the rate's family and read the source
  clock back. \<open>Inl\<close> is an early \<^verbatim>\<open>return\<close> with that code; the clock is then as
  \<^verbatim>\<open>clk_set_rate\<close> left it.
\<close>

definition set_src_clk :: "clk_set_rate \<Rightarrow> csky_i2s \<Rightarrow> u32 \<Rightarrow> (int \<times> csky_i2s) + csky_i2s" where
  "set_src_clk set_rate i2s rate =
    (case i2s_clk i2s of
       None \<Rightarrow> Inr i2s
     | Some c \<Rightarrow>
         if rate = 8000 \<or> rate = 16000 \<or> rate = 32000 \<or> rate = 48000 \<or> rate = 96000 then
           (case set_rate c (clk_fs_48k i2s) of (ret, c') \<Rightarrow>
              let i2s = i2s\<lparr>i2s_clk := Some c'\<rparr> in
              if ret \<noteq> 0 then Inl (ret, i2s)
              else Inr (i2s\<lparr>src_clk := clk_get_rate c'\<rparr>))
         else if rate = 11025 \<or> rate = 22050 \<or> rate = 44100 \<or> rate = 88200 then
           (case set_rate c (clk_fs_44k i2s) of (ret, c') \<Rightarrow>
              let i2s = i2s\<lparr>i2s_clk := Some c'\<rparr> in
              if ret \<noteq> 0 then Inl (ret, i2s)
              else Inr (i2s\<lparr>src_clk := clk_get_rate c'\<rparr>))
         else Inl (- EINVAL, i2s))"

text \<open>
  \<^verbatim>\<open>csky_i2s_set_clk_rate\<close>: the return code and the state afterwards. An early
  return keeps what has been stored in the state so far. \<^verbatim>\<open>sclk_div\<close> is not
  computed for generation v1, and not used there.
\<close>

definition csky_i2s_set_clk_rate
  :: "clk_set_rate \<Rightarrow> csky_i2s \<Rightarrow> u32 \<Rightarrow> u32 \<Rightarrow> (int \<times> csky_i2s) option" where
  "csky_i2s_set_clk_rate set_rate i2s rate word_size =
    (case set_src_clk set_rate i2s rate of
       Inl (ret, i2s) \<Rightarrow> Some (ret, i2s)
     | Inr i2s \<Rightarrow>
         let i2s = i2s\<lparr>sample_rate := rate\<rparr> in
         (case csky_i2s_calc_fs_div i2s word_size of (fs_div, i2s) \<Rightarrow>
          if fs_div < 0 then Some (- EINVAL, i2s)
          else
            (case csky_i2s_calc_mclk_div i2s rate word_size of
               None \<Rightarrow> None
             | Some (mclk_div, i2s) \<Rightarrow>
                 if mclk_div < 0 then Some (- EINVAL, i2s)
                 else
                   (case (if has_mclk_sclk_div (params i2s) then csky_i2s_calc_sclk_div i2s
                          else Some 0) of
                      None \<Rightarrow> None
                    | Some sclk_div \<Rightarrow>
                        if has_mclk_sclk_div (params i2s) \<and> sclk_div < 0 then Some (- EINVAL, i2s)
                        else
                          let spdifclk_div = csky_i2s_calc_spdifclk_div i2s rate word_size in
                          if spdifclk_div < 0 then Some (- EINVAL, i2s)
                          else
                            let refclk_div = csky_i2s_calc_refclk_div i2s rate in
                            if refclk_div < 0 then Some (- EINVAL, i2s)
                            else
                              let i2s = csky_i2s_writel i2s IIS_DIV0_LEVEL (word_of_int mclk_div);
                                  i2s = csky_i2s_writel i2s IIS_DIV1_LEVEL (word_of_int spdifclk_div);
                                  i2s = csky_i2s_writel i2s IIS_DIV2_LEVEL (word_of_int fs_div);
                                  i2s = csky_i2s_writel i2s IIS_DIV3_LEVEL (word_of_int refclk_div);
                                  i2s = (if has_mclk_sclk_div (params i2s)
                                         then csky_i2s_writel i2s IIS_DIV4_LEVEL (word_of_int sclk_div)
                                         else i2s)
                              in Some (0, i2s)))))"

subsection \<open>Notions used to state the properties\<close>

text \<open>
  The ratio checks of \<^verbatim>\<open>csky_i2s_calc_mclk_div\<close> (lines 88 to 108), as the
  condition under which none of the three \<^verbatim>\<open>return -EINVAL\<close> there is taken.
\<close>

definition ratio_ok :: "csky_i2s \<Rightarrow> u32 \<Rightarrow> bool" where
  "ratio_ok i2s mclk_fs_div =
    (if has_mclk_sclk_div (params i2s) then
       mclk_fs_div = 256 \<or> mclk_fs_div = 384 \<or> mclk_fs_div = 512 \<or> mclk_fs_div = 768
     else if audio_fmt i2s = SND_SOC_DAIFMT_I2S \<or> audio_fmt i2s = SND_SOC_DAIFMT_LEFT_J then
       mclk_fs_div = 8 * sclk_fs_divider i2s
     else mclk_fs_div = 4 * sclk_fs_divider i2s)"

text \<open>
  The two formulas of the specification, over unbounded numbers: the divider
  \<open>srcClk / (2 * clk) - 1\<close> and the clock \<open>srcClk / (2 * (div + 1))\<close> that a
  divider gives.
\<close>

definition spec_div :: "nat \<Rightarrow> nat \<Rightarrow> int" where
  "spec_div src_hz clk_hz = int (src_hz div (2 * clk_hz)) - 1"

definition spec_clk_of_div :: "nat \<Rightarrow> int \<Rightarrow> nat" where
  "spec_clk_of_div src_hz d = src_hz div (2 * nat (d + 1))"

text \<open>
  A controller as the probe leaves it when the device tree gives a fixed
  \<^verbatim>\<open>clock-frequency\<close>: no clock of its own, nothing written or printed yet. The
  arguments are the generation, the source clock, the master clock, the format
  and the \<^verbatim>\<open>sclk-fs-divider\<close> property.
\<close>

definition fixed_clock_i2s :: "bool \<Rightarrow> u32 \<Rightarrow> u32 \<Rightarrow> u32 \<Rightarrow> u32 \<Rightarrow> csky_i2s" where
  "fixed_clock_i2s v1_1 src m fmt sclk_fs =
    \<lparr>i2s_clk = None, src_clk = src, clk_fs_44k = 0, clk_fs_48k = 0, mclk = m,
     sample_rate = 0, audio_fmt = fmt, sclk_fs_divider = sclk_fs, mclk_fs_divider = 0,
     params = \<lparr>has_mclk_sclk_div = v1_1\<rparr>, regs = [], dev_log = []\<rparr>"

text \<open>
  A \<^verbatim>\<open>clk_set_rate\<close> that accepts every rate and sets it exactly, and one that
  refuses every rate with \<^verbatim>\<open>-EBUSY\<close> and leaves the clock alone.
\<close>

definition clk_exact :: clk_set_rate where
  "clk_exact c r = (0, Clk r)"

definition clk_busy :: clk_set_rate where
  "clk_busy c r = (- 16, c)"

text \<open>The \<^verbatim>\<open>dev_err\<close> line of the ratio check that applies to the state.\<close>

definition ratio_line :: "csky_i2s \<Rightarrow> u32 \<Rightarrow> msg" where
  "ratio_line i2s mclk_fs_div =
    (if has_mclk_sclk_div (params i2s) then Invalid_mclk_fs_div mclk_fs_div
     else if audio_fmt i2s = SND_SOC_DAIFMT_I2S \<or> audio_fmt i2s = SND_SOC_DAIFMT_LEFT_J then
       Mclk_ne_8_sclk
     else Mclk_ne_4_sclk)"

text \<open>
  Controllers for the examples, all with a fixed source clock. \<open>i2s_48k\<close>: v1.1,
  source clock 24,576,000 and master clock 12,288,000 = 256 * 48000.
  \<open>i2s_44k\<close>: the same source clock with the master clock 11,289,600 =
  256 * 44100, which no divider gives. \<open>i2s_slow\<close>: a source clock that is not
  twice the master clock. \<open>i2s_v1\<close>: generation v1 with master clock
  512 * 48000 and an \<^verbatim>\<open>sclk-fs-divider\<close> property of 7. \<open>i2s_v1_right_j\<close>: the
  same in the format RIGHT_J, with the property 64. \<open>i2s_odd\<close> and \<open>i2s_250\<close>:
  v1.1 with the master clocks 10,000,000, which is no multiple of 48000, and
  12,000,000 = 250 * 48000. \<open>i2s_own_clk\<close>: \<open>i2s_48k\<close> with a clock of its own and
  the frequencies of the two rate families.
\<close>

definition i2s_48k :: csky_i2s where
  "i2s_48k = fixed_clock_i2s True 24576000 12288000 SND_SOC_DAIFMT_I2S 0"

definition i2s_44k :: csky_i2s where
  "i2s_44k = fixed_clock_i2s True 24576000 11289600 SND_SOC_DAIFMT_I2S 0"

definition i2s_slow :: csky_i2s where
  "i2s_slow = fixed_clock_i2s True 12288000 12288000 SND_SOC_DAIFMT_I2S 0"

definition i2s_v1 :: csky_i2s where
  "i2s_v1 = fixed_clock_i2s False 49152000 24576000 SND_SOC_DAIFMT_I2S 7"

definition i2s_v1_right_j :: csky_i2s where
  "i2s_v1_right_j = fixed_clock_i2s False 49152000 24576000 SND_SOC_DAIFMT_RIGHT_J 64"

definition i2s_odd :: csky_i2s where
  "i2s_odd = fixed_clock_i2s True 24576000 10000000 SND_SOC_DAIFMT_I2S 0"

definition i2s_250 :: csky_i2s where
  "i2s_250 = fixed_clock_i2s True 24576000 12000000 SND_SOC_DAIFMT_I2S 0"

definition i2s_own_clk :: csky_i2s where
  "i2s_own_clk =
     i2s_48k\<lparr>i2s_clk := Some (Clk 24576000), clk_fs_44k := 22579200, clk_fs_48k := 24576000\<rparr>"

section \<open>Arithmetic of the dividers\<close>

text \<open>
  The two unsigned divisions \<^verbatim>\<open>src_clk / 2 / clk\<close> are one division by
  \<open>2 * clk\<close>, the quotient is below \<open>2^31\<close>, and so \<^verbatim>\<open>- 1\<close> and the conversion to
  \<^verbatim>\<open>int\<close> give the quotient minus one, \<open>-1\<close> when the quotient is 0.
\<close>

lemma unat_half_div: "unat ((s :: u32) div 2 div m) = unat s div (2 * unat m)"
  by (simp add: unat_div div_mult2_eq)

lemma half_div_bound: "unat ((s :: u32) div 2 div m) < 2147483648"
proof -
  have "unat s < 2 ^ 32" using unsigned_less [of s] by simp
  then have "unat s div 2 < 2147483648" by simp
  moreover have "unat s div 2 div unat m \<le> unat s div 2" by (rule div_le_dividend)
  ultimately have "unat s div 2 div unat m < 2147483648" by (rule le_less_trans [rotated])
  then show ?thesis by (simp add: unat_div)
qed

lemma sint_pred:
  fixes q :: u32
  assumes "unat q < 2147483648"
  shows "sint (q - 1) = int (unat q) - 1"
proof -
  define n where "n = int (unat q)"
  have n: "0 \<le> n" "n < 2147483648" using assms unfolding n_def by linarith+
  have "q - 1 = word_of_int (n - 1)" by (simp add: n_def)
  then have "sint (q - 1) = signed_take_bit 31 (n - 1)"
    by (simp only: sint_sbintrunc') simp
  also have "\<dots> = n - 1"
    using n by (intro signed_take_bit_int_eq_self) simp_all
  finally show ?thesis by (simp add: n_def)
qed

lemma unat_twice:
  fixes q :: u32
  assumes "unat q < 2147483648"
  shows "unat (2 * (q - 1 + 1)) = 2 * unat q"
proof -
  have "unat (2 * q) = unat (2 :: u32) * unat q"
    using assms by (intro unat_mult_lem [THEN iffD1]) simp
  then show ?thesis by simp
qed

lemma sint_half_div_pred:
  fixes s :: u32
  assumes "unat c = n"
  shows "sint (s div 2 div c - 1) = spec_div (unat s) n"
  using sint_pred [OF half_div_bound, of s c] assms by (simp add: unat_half_div spec_div_def)

lemma word_mod_0_iff_dvd: "(m :: u32) mod r = 0 \<longleftrightarrow> unat r dvd unat m"
  by (metis unat_mod unat_eq_0 mod_eq_0_iff_dvd)

section \<open>The master-clock divider\<close>

subsection \<open>The calculator by cases\<close>

lemma dev_err_neq: "dev_err i2s m \<noteq> dev_err i2s m'" if "m \<noteq> m'"
  using that by (auto simp add: dev_err_def dest: arg_cong [where f = dev_log])

lemma dev_err_neq_stored: "dev_err (i2s\<lparr>mclk_fs_divider := r\<rparr>) m \<noteq> dev_err i2s m'" if "m \<noteq> m'"
  using that by (auto simp add: dev_err_def dest: arg_cong [where f = dev_log])

lemma stored_neq_dev_err: "i2s\<lparr>mclk_fs_divider := r\<rparr> \<noteq> dev_err i2s m"
  by (auto simp add: dev_err_def dest: arg_cong [where f = dev_log])

lemma ratio_nonzero_mclk: "(m :: u32) div r \<noteq> 0 \<Longrightarrow> m \<noteq> 0"
  by auto

text \<open>A ratio that fails its check: the line of the generation and format.\<close>

lemma calc_mclk_div_ratio_fails:
  assumes "rate \<noteq> 0" "mclk i2s mod rate = 0" "\<not> ratio_ok i2s (mclk i2s div rate)"
  shows "csky_i2s_calc_mclk_div i2s rate ws =
           Some (- EINVAL, dev_err i2s (ratio_line i2s (mclk i2s div rate)))"
proof (cases "has_mclk_sclk_div (params i2s)")
  case True
  with assms show ?thesis
    by (simp add: csky_i2s_calc_mclk_div_def ratio_ok_def ratio_line_def)
next
  case v1: False
  show ?thesis
  proof (cases "audio_fmt i2s = SND_SOC_DAIFMT_I2S \<or> audio_fmt i2s = SND_SOC_DAIFMT_LEFT_J")
    case True
    with v1 assms show ?thesis
      by (simp add: csky_i2s_calc_mclk_div_def ratio_ok_def ratio_line_def)
  next
    case False
    with v1 assms show ?thesis
      by (simp add: csky_i2s_calc_mclk_div_def ratio_ok_def ratio_line_def)
  qed
qed

text \<open>What is left of the calculator once the rate and ratio checks have passed.\<close>

lemma calc_mclk_div_checks:
  assumes "rate \<noteq> 0" "mclk i2s mod rate = 0" "ratio_ok i2s (mclk i2s div rate)"
  shows "csky_i2s_calc_mclk_div i2s rate ws =
    (let i2s' = i2s\<lparr>mclk_fs_divider := mclk i2s div rate\<rparr>;
         d = src_clk i2s div 2 div mclk i2s - 1 in
     if mclk i2s = 0 then None
     else if 0 \<le> sint d then
       if 2 * (d + 1) = 0 then None
       else if src_clk i2s div (2 * (d + 1)) \<noteq> mclk i2s
         then Some (- EINVAL, dev_err i2s' (Mclk_mismatch (mclk i2s) (src_clk i2s div (2 * (d + 1)))))
         else Some (sint d, i2s')
     else Some (sint d, i2s'))"
proof -
  let ?r = "mclk i2s div rate"
  have c1: "\<not> (has_mclk_sclk_div (params i2s) \<and>
          ?r \<noteq> 256 \<and> ?r \<noteq> 384 \<and> ?r \<noteq> 512 \<and> ?r \<noteq> 768)"
    using assms(3) by (auto simp add: ratio_ok_def split: if_splits)
  have c2: "\<not> (\<not> has_mclk_sclk_div (params i2s) \<and>
          (audio_fmt i2s = SND_SOC_DAIFMT_I2S \<or> audio_fmt i2s = SND_SOC_DAIFMT_LEFT_J) \<and>
          ?r \<noteq> 8 * sclk_fs_divider i2s)"
    using assms(3) by (auto simp add: ratio_ok_def split: if_splits)
  have c3: "\<not> (\<not> has_mclk_sclk_div (params i2s) \<and>
          \<not> (audio_fmt i2s = SND_SOC_DAIFMT_I2S \<or> audio_fmt i2s = SND_SOC_DAIFMT_LEFT_J) \<and>
          ?r \<noteq> 4 * sclk_fs_divider i2s)"
    using assms(3) by (auto simp add: ratio_ok_def split: if_splits)
  have sel: "src_clk (i2s\<lparr>mclk_fs_divider := ?r\<rparr>) = src_clk i2s" by simp
  show ?thesis
    unfolding csky_i2s_calc_mclk_div_def Let_def
    by (simp only: c1 c2 c3 assms sel if_False if_True simp_thms)
qed

text \<open>
  The same in terms of the two formulas: \<open>-1\<close> when the divider is negative, the
  divider when the clock it gives is the master clock, the mismatch otherwise.
\<close>

lemma calc_mclk_div_pass:
  assumes "rate \<noteq> 0" "mclk i2s mod rate = 0" "ratio_ok i2s (mclk i2s div rate)" "mclk i2s \<noteq> 0"
  shows "csky_i2s_calc_mclk_div i2s rate ws =
    (let d = spec_div (unat (src_clk i2s)) (unat (mclk i2s));
         i2s' = i2s\<lparr>mclk_fs_divider := mclk i2s div rate\<rparr> in
     if d < 0 then Some (- 1, i2s')
     else if spec_clk_of_div (unat (src_clk i2s)) d = unat (mclk i2s) then Some (d, i2s')
     else Some (- EINVAL, dev_err i2s'
            (Mclk_mismatch (mclk i2s) (of_nat (spec_clk_of_div (unat (src_clk i2s)) d)))))"
proof -
  define qw where "qw = src_clk i2s div 2 div mclk i2s"
  define q where "q = unat (src_clk i2s) div (2 * unat (mclk i2s))"
  have q: "unat qw = q" by (simp add: qw_def q_def unat_half_div)
  have b: "unat qw < 2147483648" unfolding qw_def by (rule half_div_bound)
  have s: "sint (qw - 1) = int q - 1" using sint_pred [OF b] q by simp
  have d: "spec_div (unat (src_clk i2s)) (unat (mclk i2s)) = int q - 1"
    by (simp add: spec_div_def q_def)
  have nn: "0 \<le> sint (qw - 1) \<longleftrightarrow> q \<noteq> 0" using s by auto
  have t: "unat (2 * (qw - 1 + 1)) = 2 * q" using unat_twice [OF b] q by simp
  have z: "2 * (qw - 1 + 1) = 0 \<longleftrightarrow> q = 0"
    using t by (metis mult_eq_0_iff unat_eq_0 zero_neq_numeral)
  have r: "unat (src_clk i2s div (2 * (qw - 1 + 1))) = unat (src_clk i2s) div (2 * q)"
    by (simp only: unat_div t)
  have c: "spec_clk_of_div (unat (src_clk i2s)) (int q - 1) = unat (src_clk i2s) div (2 * q)"
    by (simp add: spec_clk_of_div_def)
  have w: "src_clk i2s div (2 * (qw - 1 + 1)) = of_nat (unat (src_clk i2s) div (2 * q))"
    using r [symmetric] by simp
  have e: "src_clk i2s div (2 * (qw - 1 + 1)) = mclk i2s \<longleftrightarrow>
           unat (src_clk i2s) div (2 * q) = unat (mclk i2s)"
    using r by (metis word_unat_eq_iff)
  show ?thesis
    unfolding calc_mclk_div_checks [OF assms(1) assms(2) assms(3)] Let_def qw_def [symmetric] d c
    unfolding nn z s w c
    using e [unfolded w] assms(4) by (cases "q = 0") simp_all
qed

text \<open>All cases of the calculator.\<close>

lemma calc_mclk_div_cases:
  "csky_i2s_calc_mclk_div i2s rate ws =
    (if rate = 0 then None
     else if mclk i2s mod rate \<noteq> 0 then Some (- EINVAL, dev_err i2s Mclk_not_multiple_of_fs)
     else if \<not> ratio_ok i2s (mclk i2s div rate) then
       Some (- EINVAL, dev_err i2s (ratio_line i2s (mclk i2s div rate)))
     else if mclk i2s = 0 then None
     else
       let d = spec_div (unat (src_clk i2s)) (unat (mclk i2s));
           i2s' = i2s\<lparr>mclk_fs_divider := mclk i2s div rate\<rparr> in
       if d < 0 then Some (- 1, i2s')
       else if spec_clk_of_div (unat (src_clk i2s)) d = unat (mclk i2s) then Some (d, i2s')
       else Some (- EINVAL, dev_err i2s'
              (Mclk_mismatch (mclk i2s) (of_nat (spec_clk_of_div (unat (src_clk i2s)) d)))))"
proof -
  consider "rate = 0" | "rate \<noteq> 0" "mclk i2s mod rate \<noteq> 0"
    | "rate \<noteq> 0" "mclk i2s mod rate = 0" "\<not> ratio_ok i2s (mclk i2s div rate)"
    | "rate \<noteq> 0" "mclk i2s mod rate = 0" "ratio_ok i2s (mclk i2s div rate)" "mclk i2s = 0"
    | "rate \<noteq> 0" "mclk i2s mod rate = 0" "ratio_ok i2s (mclk i2s div rate)" "mclk i2s \<noteq> 0"
    by argo
  then show ?thesis
  proof cases
    case 1
    then show ?thesis by (simp add: csky_i2s_calc_mclk_div_def)
  next
    case 2
    then show ?thesis by (simp add: csky_i2s_calc_mclk_div_def)
  next
    case 3
    then show ?thesis using calc_mclk_div_ratio_fails [OF 3] by simp
  next
    case 4
    then show ?thesis using calc_mclk_div_checks [OF 4(1) 4(2) 4(3)] by simp
  next
    case 5
    then show ?thesis using calc_mclk_div_pass [OF 5(1) 5(2) 5(3) 5(4)] by simp
  qed
qed

text \<open>What a return value tells: one that is not negative, and a negative one.\<close>

lemma calc_mclk_div_nonneg:
  assumes "csky_i2s_calc_mclk_div i2s rate ws = Some (ret, i2s')" "0 \<le> ret"
  shows "rate \<noteq> 0 \<and> mclk i2s mod rate = 0 \<and> ratio_ok i2s (mclk i2s div rate) \<and> mclk i2s \<noteq> 0 \<and>
         ret = spec_div (unat (src_clk i2s)) (unat (mclk i2s)) \<and>
         spec_clk_of_div (unat (src_clk i2s)) ret = unat (mclk i2s) \<and>
         i2s' = i2s\<lparr>mclk_fs_divider := mclk i2s div rate\<rparr>"
  using assms unfolding calc_mclk_div_cases Let_def
  by (simp add: EINVAL_def split: if_splits)

lemma calc_mclk_div_neg:
  assumes "csky_i2s_calc_mclk_div i2s rate ws = Some (ret, i2s')" "ret < 0"
  shows "regs i2s' = regs i2s \<and> sample_rate i2s' = sample_rate i2s \<and>
         sclk_fs_divider i2s' = sclk_fs_divider i2s \<and>
         mclk_fs_divider i2s' =
           (if mclk i2s mod rate = 0 \<and> ratio_ok i2s (mclk i2s div rate) then mclk i2s div rate
            else mclk_fs_divider i2s)"
  using assms unfolding calc_mclk_div_cases Let_def
  by (auto simp add: dev_err_def split: if_splits)

lemma calc_mclk_div_regs:
  assumes "csky_i2s_calc_mclk_div i2s rate ws = Some (ret, i2s')"
  shows "regs i2s' = regs i2s \<and> params i2s' = params i2s"
  using assms unfolding calc_mclk_div_cases Let_def
  by (auto simp add: dev_err_def split: if_splits)

text \<open>A failed multiple or ratio check: \<^verbatim>\<open>-EINVAL\<close>, and no ratio stored.\<close>

lemma calc_mclk_div_rejects:
  assumes "rate \<noteq> 0" "\<not> (mclk i2s mod rate = 0 \<and> ratio_ok i2s (mclk i2s div rate))"
  shows "\<exists>i2s'. csky_i2s_calc_mclk_div i2s rate ws = Some (- EINVAL, i2s') \<and>
           mclk_fs_divider i2s' = mclk_fs_divider i2s"
  using assms unfolding calc_mclk_div_cases
  by (auto simp add: dev_err_def)

text \<open>Passed checks: the ratio is stored, whatever comes after.\<close>

lemma calc_mclk_div_stores:
  assumes "rate \<noteq> 0" "mclk i2s mod rate = 0" "ratio_ok i2s (mclk i2s div rate)" "mclk i2s \<noteq> 0"
  shows "\<exists>ret i2s'. csky_i2s_calc_mclk_div i2s rate ws = Some (ret, i2s') \<and>
           mclk_fs_divider i2s' = mclk i2s div rate"
  unfolding calc_mclk_div_pass [OF assms] Let_def
  by (simp add: dev_err_def)

text \<open>Passed checks: none of the lines of the checks is printed.\<close>

lemma calc_mclk_div_not_ratio_line:
  assumes "rate \<noteq> 0" "mclk i2s mod rate = 0" "ratio_ok i2s (mclk i2s div rate)"
      and "\<And>a b. m \<noteq> Mclk_mismatch a b"
  shows "csky_i2s_calc_mclk_div i2s rate ws \<noteq> Some (e, dev_err i2s m)"
  unfolding calc_mclk_div_cases Let_def
  using assms assms(4) [symmetric] by (simp add: dev_err_neq_stored stored_neq_dev_err)

subsection \<open>No overflow in the round trip\<close>

lemma exact_ratio:
  fixes m r :: u32
  assumes "m mod r = 0" "m div r = k"
  shows "unat m = unat k * unat r"
proof -
  have "unat m mod unat r = 0" using assms(1) by (metis unat_mod unat_0)
  moreover have "unat m div unat r = unat k" using assms(2) by (metis unat_div)
  ultimately show ?thesis
    by (metis div_mult_mod_eq add.right_neutral)
qed

lemma four_dvd_unat_mult:
  fixes s :: u32
  assumes "4 dvd k"
  shows "4 dvd unat (of_nat k * s)"
proof -
  have "unat (of_nat k * s) = (k * unat s) mod 2 ^ 32"
    by (simp add: unat_word_ariths unat_of_nat mod_mult_left_eq)
  moreover have "(4 :: nat) dvd 2 ^ 32" by simp
  moreover have "4 dvd k * unat s" using assms by simp
  ultimately show ?thesis by (simp add: dvd_mod)
qed

lemma ratio_ok_multiple_of_4:
  assumes "ratio_ok i2s r"
  shows "4 dvd unat r"
proof -
  have "4 dvd unat (8 * sclk_fs_divider i2s)"
    using four_dvd_unat_mult [of 8 "sclk_fs_divider i2s"] by simp
  moreover have "4 dvd unat (4 * sclk_fs_divider i2s)"
    using four_dvd_unat_mult [of 4 "sclk_fs_divider i2s"] by simp
  ultimately show ?thesis
    using assms by (auto simp add: ratio_ok_def split: if_splits)
qed

text \<open>
  When the round trip is reached, the master clock is at least 4, so
  \<^verbatim>\<open>2 * (div + 1)\<close> is below \<open>2^30\<close>.
\<close>

lemma round_trip_fits_int:
  assumes "rate \<noteq> 0" "mclk i2s mod rate = 0" "ratio_ok i2s (mclk i2s div rate)" "mclk i2s \<noteq> 0"
  shows "2 * (unat (src_clk i2s) div (2 * unat (mclk i2s))) < 2147483648"
proof -
  have m: "unat (mclk i2s) = unat (mclk i2s div rate) * unat rate"
    using assms(2) by (rule exact_ratio) simp
  have "unat (mclk i2s) \<noteq> 0" using assms(4) by (simp add: unat_eq_0)
  with m have r0: "unat (mclk i2s div rate) \<noteq> 0" and "unat rate \<noteq> 0" by auto
  from ratio_ok_multiple_of_4 [OF assms(3)] r0 have "4 \<le> unat (mclk i2s div rate)"
    by (auto dest: dvd_imp_le)
  with \<open>unat rate \<noteq> 0\<close> have "4 * 1 \<le> unat (mclk i2s div rate) * unat rate"
    by (intro mult_le_mono) simp_all
  with m have ge: "4 \<le> unat (mclk i2s)" by simp
  have "unat (src_clk i2s) < 2 ^ 32" using unsigned_less [of "src_clk i2s"] by simp
  then have "unat (src_clk i2s) div 8 < 536870912" by simp
  moreover have "unat (src_clk i2s) div (2 * unat (mclk i2s)) \<le> unat (src_clk i2s) div 8"
    using ge by (intro div_le_mono2) simp_all
  ultimately show ?thesis by simp
qed

subsection \<open>The claims about the calculator\<close>

text \<open>
  C4. For a rate other than 0, \<^verbatim>\<open>csky_i2s_calc_mclk_div\<close> fails with the line
  "mclk is not a multiple of fs" exactly when the master clock is not an integer
  multiple of the rate; it then returns \<^verbatim>\<open>-EINVAL\<close> with nothing stored in the
  state, so before any divider is computed. When the master clock is a multiple,
  this failure does not occur.
\<close>

theorem calc_mclk_div_not_multiple:
  assumes "rate \<noteq> 0"
  shows "csky_i2s_calc_mclk_div i2s rate word_size =
           Some (- EINVAL, dev_err i2s Mclk_not_multiple_of_fs)
         \<longleftrightarrow> \<not> unat rate dvd unat (mclk i2s)"
proof (cases "mclk i2s mod rate = 0")
  case False
  with assms show ?thesis
    by (simp add: csky_i2s_calc_mclk_div_def word_mod_0_iff_dvd)
next
  case True
  have "csky_i2s_calc_mclk_div i2s rate word_size \<noteq>
          Some (- EINVAL, dev_err i2s Mclk_not_multiple_of_fs)"
    using assms True
    by (simp add: csky_i2s_calc_mclk_div_def Let_def dev_err_neq dev_err_neq_stored
        stored_neq_dev_err)
  with True show ?thesis by (simp add: word_mod_0_iff_dvd)
qed

theorem calc_mclk_div_not_multiple_witness:
  "(48000 :: u32) \<noteq> 0 \<and> \<not> unat (48000 :: u32) dvd unat (mclk i2s_odd) \<and>
   csky_i2s_calc_mclk_div i2s_odd 48000 16 =
     Some (- EINVAL, dev_err i2s_odd Mclk_not_multiple_of_fs)"
  using calc_mclk_div_not_multiple [of 48000 i2s_odd 16]
  by (simp add: i2s_odd_def fixed_clock_i2s_def)

text \<open>
  C2. For generation v1.1 and a rate other than 0, \<^verbatim>\<open>csky_i2s_calc_mclk_div\<close>
  fails, returning \<^verbatim>\<open>-EINVAL\<close> with no ratio stored, for every input whose
  ratio \<open>mclk / rate\<close> is not one of 256, 384, 512 and 768. When the master clock
  is a multiple of the rate, so that the ratio check is reached, the calculator
  fails with the line "invalid mclk_fs_div" exactly when the ratio is not one of
  the four, and when it is one of them it goes on and stores the ratio.
\<close>

theorem calc_mclk_div_v1_1_ratio:
  assumes "has_mclk_sclk_div (params i2s)" "rate \<noteq> 0"
  shows "(mclk i2s div rate \<notin> {256, 384, 512, 768} \<longrightarrow>
            (\<exists>i2s'. csky_i2s_calc_mclk_div i2s rate word_size = Some (- EINVAL, i2s') \<and>
               mclk_fs_divider i2s' = mclk_fs_divider i2s)) \<and>
         (mclk i2s mod rate = 0 \<longrightarrow>
            (csky_i2s_calc_mclk_div i2s rate word_size =
               Some (- EINVAL, dev_err i2s (Invalid_mclk_fs_div (mclk i2s div rate)))
             \<longleftrightarrow> mclk i2s div rate \<notin> {256, 384, 512, 768})) \<and>
         (mclk i2s mod rate = 0 \<and> mclk i2s div rate \<in> {256, 384, 512, 768} \<longrightarrow>
            (\<exists>ret i2s'. csky_i2s_calc_mclk_div i2s rate word_size = Some (ret, i2s') \<and>
               mclk_fs_divider i2s' = mclk i2s div rate))"
proof -
  let ?r = "mclk i2s div rate"
  have ok: "ratio_ok i2s ?r \<longleftrightarrow> ?r \<in> {256, 384, 512, 768}"
    using assms(1) by (simp add: ratio_ok_def)
  have line: "ratio_line i2s ?r = Invalid_mclk_fs_div ?r"
    using assms(1) by (simp add: ratio_line_def)
  have a: "\<exists>i2s'. csky_i2s_calc_mclk_div i2s rate word_size = Some (- EINVAL, i2s') \<and>
             mclk_fs_divider i2s' = mclk_fs_divider i2s" if "?r \<notin> {256, 384, 512, 768}"
    using that ok by (intro calc_mclk_div_rejects [OF assms(2)]) simp
  have b: "csky_i2s_calc_mclk_div i2s rate word_size =
             Some (- EINVAL, dev_err i2s (Invalid_mclk_fs_div ?r))
           \<longleftrightarrow> ?r \<notin> {256, 384, 512, 768}" if m: "mclk i2s mod rate = 0"
  proof (cases "ratio_ok i2s ?r")
    case True
    from calc_mclk_div_not_ratio_line [OF assms(2) m True, of "Invalid_mclk_fs_div ?r"] True ok
    show ?thesis by simp
  next
    case False
    from calc_mclk_div_ratio_fails [OF assms(2) m False] False ok line
    show ?thesis by simp
  qed
  have c: "\<exists>ret i2s'. csky_i2s_calc_mclk_div i2s rate word_size = Some (ret, i2s') \<and>
             mclk_fs_divider i2s' = ?r"
    if m: "mclk i2s mod rate = 0" and r: "?r \<in> {256, 384, 512, 768}"
  proof -
    have "?r \<noteq> 0" using r by auto
    then have "mclk i2s \<noteq> 0" by (rule ratio_nonzero_mclk)
    with r ok show ?thesis by (intro calc_mclk_div_stores [OF assms(2) m]) simp_all
  qed
  show ?thesis
  proof (intro conjI impI)
    assume "?r \<notin> {256, 384, 512, 768}"
    then show "\<exists>i2s'. csky_i2s_calc_mclk_div i2s rate word_size = Some (- EINVAL, i2s') \<and>
                 mclk_fs_divider i2s' = mclk_fs_divider i2s"
      by (rule a)
  next
    assume "mclk i2s mod rate = 0"
    then show "csky_i2s_calc_mclk_div i2s rate word_size =
                 Some (- EINVAL, dev_err i2s (Invalid_mclk_fs_div ?r))
               \<longleftrightarrow> ?r \<notin> {256, 384, 512, 768}"
      by (rule b)
  next
    assume "mclk i2s mod rate = 0 \<and> ?r \<in> {256, 384, 512, 768}"
    then show "\<exists>ret i2s'. csky_i2s_calc_mclk_div i2s rate word_size = Some (ret, i2s') \<and>
                 mclk_fs_divider i2s' = ?r"
      by (elim conjE) (rule c)
  qed
qed

theorem calc_mclk_div_v1_1_ratio_witness:
  "has_mclk_sclk_div (params i2s_250) \<and> (48000 :: u32) \<noteq> 0 \<and>
   mclk i2s_250 mod 48000 = 0 \<and> mclk i2s_250 div 48000 = 250 \<and>
   csky_i2s_calc_mclk_div i2s_250 48000 16 =
     Some (- EINVAL, dev_err i2s_250 (Invalid_mclk_fs_div 250)) \<and>
   has_mclk_sclk_div (params i2s_48k) \<and>
   mclk i2s_48k mod 48000 = 0 \<and> mclk i2s_48k div 48000 = 256 \<and>
   csky_i2s_calc_mclk_div i2s_48k 48000 16 \<noteq>
     Some (- EINVAL, dev_err i2s_48k (Invalid_mclk_fs_div 256))"
  using calc_mclk_div_v1_1_ratio [of i2s_250 48000 16]
    calc_mclk_div_v1_1_ratio [of i2s_48k 48000 16]
  by (simp add: i2s_250_def i2s_48k_def fixed_clock_i2s_def)

text \<open>The ratio check of one generation and format, with its condition \<open>P\<close> and its line.\<close>

lemma ratio_check:
  assumes "rate \<noteq> 0"
      and ok: "ratio_ok i2s (mclk i2s div rate) \<longleftrightarrow> P"
      and line: "ratio_line i2s (mclk i2s div rate) = l"
      and l: "\<And>a b. l \<noteq> Mclk_mismatch a b"
  shows "(\<not> P \<longrightarrow>
            (\<exists>i2s'. csky_i2s_calc_mclk_div i2s rate ws = Some (- EINVAL, i2s') \<and>
               mclk_fs_divider i2s' = mclk_fs_divider i2s)) \<and>
         (mclk i2s mod rate = 0 \<longrightarrow>
            (csky_i2s_calc_mclk_div i2s rate ws = Some (- EINVAL, dev_err i2s l) \<longleftrightarrow> \<not> P)) \<and>
         (mclk i2s mod rate = 0 \<and> P \<and> mclk i2s \<noteq> 0 \<longrightarrow>
            (\<exists>ret i2s'. csky_i2s_calc_mclk_div i2s rate ws = Some (ret, i2s') \<and>
               mclk_fs_divider i2s' = mclk i2s div rate))"
proof (intro conjI impI)
  assume "\<not> P"
  then show "\<exists>i2s'. csky_i2s_calc_mclk_div i2s rate ws = Some (- EINVAL, i2s') \<and>
               mclk_fs_divider i2s' = mclk_fs_divider i2s"
    using ok by (intro calc_mclk_div_rejects [OF assms(1)]) simp
next
  assume m: "mclk i2s mod rate = 0"
  show "csky_i2s_calc_mclk_div i2s rate ws = Some (- EINVAL, dev_err i2s l) \<longleftrightarrow> \<not> P"
  proof (cases "ratio_ok i2s (mclk i2s div rate)")
    case True
    from calc_mclk_div_not_ratio_line [OF assms(1) m True, of l] l True ok
    show ?thesis by simp
  next
    case False
    from calc_mclk_div_ratio_fails [OF assms(1) m False] False ok line
    show ?thesis by simp
  qed
next
  assume "mclk i2s mod rate = 0 \<and> P \<and> mclk i2s \<noteq> 0"
  then show "\<exists>ret i2s'. csky_i2s_calc_mclk_div i2s rate ws = Some (ret, i2s') \<and>
               mclk_fs_divider i2s' = mclk i2s div rate"
    using ok by (intro calc_mclk_div_stores [OF assms(1)]) simp_all
qed

text \<open>
  C3. For generation v1 and a rate other than 0: with the format I2S or LEFT_J,
  \<^verbatim>\<open>csky_i2s_calc_mclk_div\<close> fails, returning \<^verbatim>\<open>-EINVAL\<close> with no ratio stored, for
  every ratio \<open>mclk / rate\<close> other than \<open>8 * sclk_fs_divider\<close>; when the master
  clock is a multiple of the rate, it fails with the line "mclk != 8*sclk"
  exactly when the ratio is not that product, and a ratio that is the product
  is stored. With the format RIGHT_J the same holds for \<open>4 * sclk_fs_divider\<close>
  and the line "mclk != 4*sclk". The products are the 32-bit ones of the source.
\<close>

theorem calc_mclk_div_v1_ratio:
  assumes "\<not> has_mclk_sclk_div (params i2s)" "rate \<noteq> 0"
  shows "(audio_fmt i2s = SND_SOC_DAIFMT_I2S \<or> audio_fmt i2s = SND_SOC_DAIFMT_LEFT_J \<longrightarrow>
           (mclk i2s div rate \<noteq> 8 * sclk_fs_divider i2s \<longrightarrow>
              (\<exists>i2s'. csky_i2s_calc_mclk_div i2s rate word_size = Some (- EINVAL, i2s') \<and>
                 mclk_fs_divider i2s' = mclk_fs_divider i2s)) \<and>
           (mclk i2s mod rate = 0 \<longrightarrow>
              (csky_i2s_calc_mclk_div i2s rate word_size =
                 Some (- EINVAL, dev_err i2s Mclk_ne_8_sclk)
               \<longleftrightarrow> mclk i2s div rate \<noteq> 8 * sclk_fs_divider i2s)) \<and>
           (mclk i2s mod rate = 0 \<and> mclk i2s div rate = 8 * sclk_fs_divider i2s \<and>
            mclk i2s \<noteq> 0 \<longrightarrow>
              (\<exists>ret i2s'. csky_i2s_calc_mclk_div i2s rate word_size = Some (ret, i2s') \<and>
                 mclk_fs_divider i2s' = mclk i2s div rate))) \<and>
         (audio_fmt i2s = SND_SOC_DAIFMT_RIGHT_J \<longrightarrow>
           (mclk i2s div rate \<noteq> 4 * sclk_fs_divider i2s \<longrightarrow>
              (\<exists>i2s'. csky_i2s_calc_mclk_div i2s rate word_size = Some (- EINVAL, i2s') \<and>
                 mclk_fs_divider i2s' = mclk_fs_divider i2s)) \<and>
           (mclk i2s mod rate = 0 \<longrightarrow>
              (csky_i2s_calc_mclk_div i2s rate word_size =
                 Some (- EINVAL, dev_err i2s Mclk_ne_4_sclk)
               \<longleftrightarrow> mclk i2s div rate \<noteq> 4 * sclk_fs_divider i2s)) \<and>
           (mclk i2s mod rate = 0 \<and> mclk i2s div rate = 4 * sclk_fs_divider i2s \<and>
            mclk i2s \<noteq> 0 \<longrightarrow>
              (\<exists>ret i2s'. csky_i2s_calc_mclk_div i2s rate word_size = Some (ret, i2s') \<and>
                 mclk_fs_divider i2s' = mclk i2s div rate)))"
proof (intro conjI [of "_ \<longrightarrow> _" "_ \<longrightarrow> _"] impI)
  assume f: "audio_fmt i2s = SND_SOC_DAIFMT_I2S \<or> audio_fmt i2s = SND_SOC_DAIFMT_LEFT_J"
  have ok: "ratio_ok i2s (mclk i2s div rate) \<longleftrightarrow> mclk i2s div rate = 8 * sclk_fs_divider i2s"
    using assms(1) f by (simp add: ratio_ok_def)
  have line: "ratio_line i2s (mclk i2s div rate) = Mclk_ne_8_sclk"
    using assms(1) f by (simp add: ratio_line_def)
  from ratio_check [OF assms(2) ok line, of word_size]
  show "(mclk i2s div rate \<noteq> 8 * sclk_fs_divider i2s \<longrightarrow>
              (\<exists>i2s'. csky_i2s_calc_mclk_div i2s rate word_size = Some (- EINVAL, i2s') \<and>
                 mclk_fs_divider i2s' = mclk_fs_divider i2s)) \<and>
           (mclk i2s mod rate = 0 \<longrightarrow>
              (csky_i2s_calc_mclk_div i2s rate word_size =
                 Some (- EINVAL, dev_err i2s Mclk_ne_8_sclk)
               \<longleftrightarrow> mclk i2s div rate \<noteq> 8 * sclk_fs_divider i2s)) \<and>
           (mclk i2s mod rate = 0 \<and> mclk i2s div rate = 8 * sclk_fs_divider i2s \<and>
            mclk i2s \<noteq> 0 \<longrightarrow>
              (\<exists>ret i2s'. csky_i2s_calc_mclk_div i2s rate word_size = Some (ret, i2s') \<and>
                 mclk_fs_divider i2s' = mclk i2s div rate))"
    by simp
next
  assume "audio_fmt i2s = SND_SOC_DAIFMT_RIGHT_J"
  then have nf: "\<not> (audio_fmt i2s = SND_SOC_DAIFMT_I2S \<or> audio_fmt i2s = SND_SOC_DAIFMT_LEFT_J)"
    by (simp add: SND_SOC_DAIFMT_RIGHT_J_def SND_SOC_DAIFMT_I2S_def SND_SOC_DAIFMT_LEFT_J_def)
  have ok: "ratio_ok i2s (mclk i2s div rate) \<longleftrightarrow> mclk i2s div rate = 4 * sclk_fs_divider i2s"
    using assms(1) nf by (simp add: ratio_ok_def)
  have line: "ratio_line i2s (mclk i2s div rate) = Mclk_ne_4_sclk"
    using assms(1) nf by (simp add: ratio_line_def)
  from ratio_check [OF assms(2) ok line, of word_size]
  show "(mclk i2s div rate \<noteq> 4 * sclk_fs_divider i2s \<longrightarrow>
              (\<exists>i2s'. csky_i2s_calc_mclk_div i2s rate word_size = Some (- EINVAL, i2s') \<and>
                 mclk_fs_divider i2s' = mclk_fs_divider i2s)) \<and>
           (mclk i2s mod rate = 0 \<longrightarrow>
              (csky_i2s_calc_mclk_div i2s rate word_size =
                 Some (- EINVAL, dev_err i2s Mclk_ne_4_sclk)
               \<longleftrightarrow> mclk i2s div rate \<noteq> 4 * sclk_fs_divider i2s)) \<and>
           (mclk i2s mod rate = 0 \<and> mclk i2s div rate = 4 * sclk_fs_divider i2s \<and>
            mclk i2s \<noteq> 0 \<longrightarrow>
              (\<exists>ret i2s'. csky_i2s_calc_mclk_div i2s rate word_size = Some (ret, i2s') \<and>
                 mclk_fs_divider i2s' = mclk i2s div rate))"
    by simp
qed

theorem calc_mclk_div_v1_ratio_witness:
  "\<not> has_mclk_sclk_div (params i2s_v1_right_j) \<and> (48000 :: u32) \<noteq> 0 \<and>
   audio_fmt i2s_v1_right_j = SND_SOC_DAIFMT_RIGHT_J \<and>
   mclk i2s_v1_right_j mod 48000 = 0 \<and> mclk i2s_v1_right_j div 48000 = 512 \<and>
   4 * sclk_fs_divider i2s_v1_right_j = 256 \<and>
   csky_i2s_calc_mclk_div i2s_v1_right_j 48000 16 =
     Some (- EINVAL, dev_err i2s_v1_right_j Mclk_ne_4_sclk) \<and>
   \<not> has_mclk_sclk_div (params i2s_v1) \<and> audio_fmt i2s_v1 = SND_SOC_DAIFMT_I2S \<and>
   mclk i2s_v1 mod 48000 = 0 \<and> mclk i2s_v1 div 48000 = 512 \<and>
   8 * sclk_fs_divider i2s_v1 = 56 \<and>
   csky_i2s_calc_mclk_div i2s_v1 48000 16 = Some (- EINVAL, dev_err i2s_v1 Mclk_ne_8_sclk)"
  using calc_mclk_div_v1_ratio [of i2s_v1_right_j 48000 16]
    calc_mclk_div_v1_ratio [of i2s_v1 48000 16]
  by (simp add: i2s_v1_right_j_def i2s_v1_def fixed_clock_i2s_def)

text \<open>
  The products of the two checks are exact as long as \<^verbatim>\<open>sclk_fs_divider\<close> is below
  \<open>2^29\<close>; \<^verbatim>\<open>csky_i2s_set_clk_rate\<close> always calls the calculator with 64 there.
\<close>

lemma ratio_products_exact:
  fixes s :: u32
  assumes "unat s < 536870912"
  shows "unat (8 * s) = 8 * unat s \<and> unat (4 * s) = 4 * unat s"
proof -
  have "unat (8 * s) = unat (8 :: u32) * unat s"
    using assms by (intro unat_mult_lem [THEN iffD1]) simp
  moreover have "unat (4 * s) = unat (4 :: u32) * unat s"
    using assms by (intro unat_mult_lem [THEN iffD1]) simp
  ultimately show ?thesis by simp
qed

text \<open>
  C1, as amended. Let the rate be other than 0 and the master clock \<open>M\<close> a
  nonzero multiple of it that passes the ratio checks of the generation, and let
  \<open>srcClk / (2 * M) - 1\<close> be at least 0. Then \<^verbatim>\<open>csky_i2s_calc_mclk_div\<close> returns
  that divider, with the ratio stored, if the clock that the divider gives,
  \<open>srcClk / (2 * (div + 1))\<close>, is \<open>M\<close> exactly; otherwise it returns \<^verbatim>\<open>-EINVAL\<close>
  with the line "mclk mismatch". So every divider it returns gives \<open>M\<close> back, and
  not every such input gets a divider.
\<close>

theorem calc_mclk_div_round_trip:
  assumes "rate \<noteq> 0" "mclk i2s \<noteq> 0" "mclk i2s mod rate = 0"
      and "ratio_ok i2s (mclk i2s div rate)"
      and "0 \<le> spec_div (unat (src_clk i2s)) (unat (mclk i2s))"
  shows "csky_i2s_calc_mclk_div i2s rate word_size =
    (if spec_clk_of_div (unat (src_clk i2s)) (spec_div (unat (src_clk i2s)) (unat (mclk i2s)))
          = unat (mclk i2s)
     then Some (spec_div (unat (src_clk i2s)) (unat (mclk i2s)),
                i2s\<lparr>mclk_fs_divider := mclk i2s div rate\<rparr>)
     else Some (- EINVAL, dev_err (i2s\<lparr>mclk_fs_divider := mclk i2s div rate\<rparr>)
                (Mclk_mismatch (mclk i2s) (of_nat (spec_clk_of_div (unat (src_clk i2s))
                   (spec_div (unat (src_clk i2s)) (unat (mclk i2s))))))))"
  using assms(5)
  unfolding calc_mclk_div_pass [OF assms(1) assms(3) assms(4) assms(2)] Let_def
  by simp

theorem calc_mclk_div_round_trip_witness:
  "(48000 :: u32) \<noteq> 0 \<and> mclk i2s_48k \<noteq> 0 \<and> mclk i2s_48k mod 48000 = 0 \<and>
   ratio_ok i2s_48k (mclk i2s_48k div 48000) \<and>
   0 \<le> spec_div (unat (src_clk i2s_48k)) (unat (mclk i2s_48k)) \<and>
   csky_i2s_calc_mclk_div i2s_48k 48000 16 = Some (0, i2s_48k\<lparr>mclk_fs_divider := 256\<rparr>) \<and>
   (44100 :: u32) \<noteq> 0 \<and> mclk i2s_44k \<noteq> 0 \<and> mclk i2s_44k mod 44100 = 0 \<and>
   ratio_ok i2s_44k (mclk i2s_44k div 44100) \<and>
   0 \<le> spec_div (unat (src_clk i2s_44k)) (unat (mclk i2s_44k)) \<and>
   csky_i2s_calc_mclk_div i2s_44k 44100 16 =
     Some (- EINVAL, dev_err (i2s_44k\<lparr>mclk_fs_divider := 256\<rparr>) (Mclk_mismatch 11289600 12288000))"
  using calc_mclk_div_round_trip [of 48000 i2s_48k 16]
    calc_mclk_div_round_trip [of 44100 i2s_44k 16]
  by (simp add: i2s_48k_def i2s_44k_def fixed_clock_i2s_def ratio_ok_def spec_div_def
      spec_clk_of_div_def)

text \<open>
  The counterexample to C1 as stated: \<open>i2s_44k\<close> at the rate 44100. The master
  clock is 256 times the rate, the checks pass and the divider is 0, but the
  clock that the divider 0 gives is 12,288,000, not 11,289,600, and the
  calculator fails.
\<close>

theorem calc_mclk_div_round_trip_counterexample:
  "mclk i2s_44k mod 44100 = 0 \<and> ratio_ok i2s_44k (mclk i2s_44k div 44100) \<and>
   spec_div (unat (src_clk i2s_44k)) (unat (mclk i2s_44k)) = 0 \<and>
   spec_clk_of_div (unat (src_clk i2s_44k)) 0 = 12288000 \<and>
   unat (mclk i2s_44k) = 11289600 \<and>
   csky_i2s_calc_mclk_div i2s_44k 44100 16 =
     Some (- EINVAL, dev_err (i2s_44k\<lparr>mclk_fs_divider := 256\<rparr>) (Mclk_mismatch 11289600 12288000))"
  by (simp add: i2s_44k_def fixed_clock_i2s_def ratio_ok_def spec_div_def spec_clk_of_div_def
      csky_i2s_calc_mclk_div_def)

section \<open>The frame-sync divider\<close>

text \<open>
  C8. \<^verbatim>\<open>csky_i2s_calc_fs_div\<close> returns 31 in every state and for every word
  size, and stores 64 as the sclk-to-fs ratio: the word size does not occur in
  the result.
\<close>

theorem calc_fs_div_31:
  "csky_i2s_calc_fs_div i2s word_size = (31, i2s\<lparr>sclk_fs_divider := 64\<rparr>)"
  by (simp add: csky_i2s_calc_fs_div_def)

section \<open>The reference-clock divider\<close>

text \<open>
  C7. \<^verbatim>\<open>csky_i2s_calc_refclk_div\<close> takes 3,072,000 Hz as the reference clock for
  the rates 8000, 16000, 32000, 48000 and 96000, and 2,116,800 Hz for 11025, 22050,
  44100 and 88200; for these it returns \<open>src_clk / (2 * ref_clk) - 1\<close> as it
  comes, with no check of the result; for every other rate it returns
  \<^verbatim>\<open>-EINVAL\<close>.
\<close>

theorem calc_refclk_div_table:
  "csky_i2s_calc_refclk_div i2s rate =
    (if rate \<in> {8000, 16000, 32000, 48000, 96000} then spec_div (unat (src_clk i2s)) 3072000
     else if rate \<in> {11025, 22050, 44100, 88200} then spec_div (unat (src_clk i2s)) 2116800
     else - EINVAL)"
proof -
  have a: "sint (src_clk i2s div 2 div 3072000 - 1) = spec_div (unat (src_clk i2s)) 3072000"
    by (rule sint_half_div_pred) simp
  have b: "sint (src_clk i2s div 2 div 2116800 - 1) = spec_div (unat (src_clk i2s)) 2116800"
    by (rule sint_half_div_pred) simp
  show ?thesis
    unfolding csky_i2s_calc_refclk_div_def a b by simp
qed

section \<open>Setting the clock rate\<close>

subsection \<open>The request by cases\<close>

lemma calc_fs_div_eq:
  "csky_i2s_calc_fs_div i2s ws = (31, i2s\<lparr>sclk_fs_divider := 64\<rparr>)"
  by (simp add: csky_i2s_calc_fs_div_def)

text \<open>The source-clock step changes the clock and the source clock, nothing else.\<close>

lemma set_src_clk_Inr:
  assumes "set_src_clk K i2s rate = Inr s1"
  shows "\<exists>c x. s1 = i2s\<lparr>i2s_clk := c, src_clk := x\<rparr>"
proof (cases "i2s_clk i2s")
  case None
  with assms have "s1 = i2s" by (simp add: set_src_clk_def)
  then have "s1 = i2s\<lparr>i2s_clk := i2s_clk i2s, src_clk := src_clk i2s\<rparr>" by simp
  then show ?thesis by blast
next
  case (Some c)
  with assms show ?thesis
    by (auto simp add: set_src_clk_def Let_def split: if_splits prod.splits)
qed

lemma set_src_clk_Inl:
  assumes "set_src_clk K i2s rate = Inl (e, s)"
  shows "e \<noteq> 0 \<and> s\<lparr>i2s_clk := i2s_clk i2s\<rparr> = i2s"
  using assms
  by (auto simp add: set_src_clk_def EINVAL_def Let_def split: option.splits if_splits prod.splits)

lemma set_src_clk_fields:
  assumes "set_src_clk K i2s rate = Inr s1"
  shows "mclk s1 = mclk i2s \<and> audio_fmt s1 = audio_fmt i2s \<and> params s1 = params i2s \<and>
         mclk_fs_divider s1 = mclk_fs_divider i2s \<and> regs s1 = regs i2s"
  using set_src_clk_Inr [OF assms] by auto

lemma set_src_clk_sclk_fs:
  assumes "set_src_clk K i2s rate = Inr s1"
  shows "set_src_clk K (i2s\<lparr>sclk_fs_divider := x\<rparr>) rate = Inr (s1\<lparr>sclk_fs_divider := x\<rparr>)"
  using assms
  by (auto simp add: set_src_clk_def Let_def split: option.splits if_splits prod.splits)

text \<open>The request after its first part: an early return, or the calculators in turn.\<close>

lemma set_clk_rate_early:
  assumes "set_src_clk K i2s rate = Inl (e, s)"
  shows "csky_i2s_set_clk_rate K i2s rate ws = Some (e, s)"
  using assms by (simp add: csky_i2s_set_clk_rate_def)

lemma set_clk_rate_run:
  assumes "set_src_clk K i2s rate = Inr s1"
  shows "csky_i2s_set_clk_rate K i2s rate ws =
    (case csky_i2s_calc_mclk_div (s1\<lparr>sample_rate := rate, sclk_fs_divider := 64\<rparr>) rate ws of
       None \<Rightarrow> None
     | Some (mclk_div, s3) \<Rightarrow>
         if mclk_div < 0 then Some (- EINVAL, s3)
         else
           (case (if has_mclk_sclk_div (params s3) then csky_i2s_calc_sclk_div s3 else Some 0) of
              None \<Rightarrow> None
            | Some sclk_div \<Rightarrow>
                if has_mclk_sclk_div (params s3) \<and> sclk_div < 0 then Some (- EINVAL, s3)
                else if csky_i2s_calc_refclk_div s3 rate < 0 then Some (- EINVAL, s3)
                else Some (0, s3\<lparr>regs := regs s3 @
                  [(IIS_DIV0_LEVEL, word_of_int mclk_div), (IIS_DIV1_LEVEL, 17),
                   (IIS_DIV2_LEVEL, 31),
                   (IIS_DIV3_LEVEL, word_of_int (csky_i2s_calc_refclk_div s3 rate))] @
                  (if has_mclk_sclk_div (params s3) then [(IIS_DIV4_LEVEL, word_of_int sclk_div)]
                   else [])\<rparr>)))"
  by (simp add: csky_i2s_set_clk_rate_def assms calc_fs_div_eq csky_i2s_calc_spdifclk_div_def
      csky_i2s_writel_def Let_def split: option.splits prod.splits)

lemma ratio_ok_64:
  "ratio_ok (s\<lparr>sample_rate := r, sclk_fs_divider := 64\<rparr>) x \<longleftrightarrow>
     (if has_mclk_sclk_div (params s) then x = 256 \<or> x = 384 \<or> x = 512 \<or> x = 768
      else if audio_fmt s = SND_SOC_DAIFMT_I2S \<or> audio_fmt s = SND_SOC_DAIFMT_LEFT_J then x = 512
      else x = 256)"
  by (simp add: ratio_ok_def)

subsection \<open>The claims about the request\<close>

text \<open>
  C6. Take a request whose source-clock step has passed, and name what the
  calculators return in the order of the source, each on the state it is called
  with. The frame-sync and SPDIF calculators never fail. If the master-clock, the
  master-to-serial (v1.1 only) or the reference-clock calculator returns a
  negative value, the request returns \<^verbatim>\<open>-EINVAL\<close> and the registers are as
  before the request. Otherwise it returns 0 and has written, in this order, the
  master-clock divider to DIV0, the SPDIF divider to DIV1, the frame-sync divider
  to DIV2, the reference-clock divider to DIV3 and, for v1.1, the
  master-to-serial divider to DIV4, and nothing else.
\<close>

theorem set_clk_rate_all_or_nothing:
  assumes "set_src_clk set_rate i2s rate = Inr s1"
      and "csky_i2s_calc_fs_div (s1\<lparr>sample_rate := rate\<rparr>) word_size = (fs_div, s2)"
      and "csky_i2s_calc_mclk_div s2 rate word_size = Some (mclk_div, s3)"
      and "has_mclk_sclk_div (params s3) \<longrightarrow> csky_i2s_calc_sclk_div s3 = Some sclk_div"
      and "csky_i2s_calc_spdifclk_div s3 rate word_size = spdifclk_div"
      and "csky_i2s_calc_refclk_div s3 rate = refclk_div"
  shows "0 \<le> fs_div \<and> 0 \<le> spdifclk_div \<and> regs s3 = regs i2s \<and>
         csky_i2s_set_clk_rate set_rate i2s rate word_size =
           (if mclk_div < 0 \<or> (has_mclk_sclk_div (params s3) \<and> sclk_div < 0) \<or> refclk_div < 0
            then Some (- EINVAL, s3)
            else Some (0, s3\<lparr>regs := regs i2s @
                   [(IIS_DIV0_LEVEL, word_of_int mclk_div),
                    (IIS_DIV1_LEVEL, word_of_int spdifclk_div),
                    (IIS_DIV2_LEVEL, word_of_int fs_div),
                    (IIS_DIV3_LEVEL, word_of_int refclk_div)] @
                   (if has_mclk_sclk_div (params s3) then [(IIS_DIV4_LEVEL, word_of_int sclk_div)]
                    else [])\<rparr>))"
proof -
  have fs: "fs_div = 31" and s2: "s2 = s1\<lparr>sample_rate := rate, sclk_fs_divider := 64\<rparr>"
    using assms(2) by (simp_all add: calc_fs_div_eq)
  have sp: "spdifclk_div = 17"
    using assms(5) by (simp add: csky_i2s_calc_spdifclk_div_def)
  have m: "csky_i2s_calc_mclk_div (s1\<lparr>sample_rate := rate, sclk_fs_divider := 64\<rparr>) rate word_size
             = Some (mclk_div, s3)"
    using assms(3) s2 by simp
  have r: "regs s3 = regs i2s"
    using calc_mclk_div_regs [OF m] set_src_clk_fields [OF assms(1)] by simp
  show ?thesis
    unfolding set_clk_rate_run [OF assms(1)] m
    using assms(4) assms(6) by (simp add: fs sp r)
qed

theorem set_clk_rate_all_or_nothing_witness:
  "set_src_clk clk_exact i2s_48k 48000 = Inr i2s_48k \<and>
   csky_i2s_calc_fs_div (i2s_48k\<lparr>sample_rate := 48000\<rparr>) 16 =
     (31, i2s_48k\<lparr>sample_rate := 48000, sclk_fs_divider := 64\<rparr>) \<and>
   csky_i2s_calc_mclk_div (i2s_48k\<lparr>sample_rate := 48000, sclk_fs_divider := 64\<rparr>) 48000 16 =
     Some (0, i2s_48k\<lparr>sample_rate := 48000, sclk_fs_divider := 64, mclk_fs_divider := 256\<rparr>) \<and>
   csky_i2s_calc_sclk_div
     (i2s_48k\<lparr>sample_rate := 48000, sclk_fs_divider := 64, mclk_fs_divider := 256\<rparr>) = Some 1 \<and>
   csky_i2s_calc_refclk_div
     (i2s_48k\<lparr>sample_rate := 48000, sclk_fs_divider := 64, mclk_fs_divider := 256\<rparr>) 48000 = 3 \<and>
   csky_i2s_set_clk_rate clk_exact i2s_48k 48000 16 =
     Some (0, i2s_48k\<lparr>sample_rate := 48000, sclk_fs_divider := 64, mclk_fs_divider := 256,
       regs := [(IIS_DIV0_LEVEL, 0), (IIS_DIV1_LEVEL, 17), (IIS_DIV2_LEVEL, 31),
                (IIS_DIV3_LEVEL, 3), (IIS_DIV4_LEVEL, 1)]\<rparr>) \<and>
   set_src_clk clk_exact i2s_44k 44100 = Inr i2s_44k \<and>
   csky_i2s_calc_mclk_div (i2s_44k\<lparr>sample_rate := 44100, sclk_fs_divider := 64\<rparr>) 44100 16 =
     Some (- EINVAL,
       dev_err (i2s_44k\<lparr>sample_rate := 44100, sclk_fs_divider := 64, mclk_fs_divider := 256\<rparr>)
         (Mclk_mismatch 11289600 12288000)) \<and>
   csky_i2s_set_clk_rate clk_exact i2s_44k 44100 16 =
     Some (- EINVAL,
       dev_err (i2s_44k\<lparr>sample_rate := 44100, sclk_fs_divider := 64, mclk_fs_divider := 256\<rparr>)
         (Mclk_mismatch 11289600 12288000)) \<and>
   regs (dev_err (i2s_44k\<lparr>sample_rate := 44100, sclk_fs_divider := 64, mclk_fs_divider := 256\<rparr>)
         (Mclk_mismatch 11289600 12288000)) = regs i2s_44k"
  using set_clk_rate_all_or_nothing [of clk_exact i2s_48k 48000 i2s_48k 16 31
      "i2s_48k\<lparr>sample_rate := 48000, sclk_fs_divider := 64\<rparr>" 0
      "i2s_48k\<lparr>sample_rate := 48000, sclk_fs_divider := 64, mclk_fs_divider := 256\<rparr>" 1 17 3]
    set_clk_rate_all_or_nothing [of clk_exact i2s_44k 44100 i2s_44k 16 31
      "i2s_44k\<lparr>sample_rate := 44100, sclk_fs_divider := 64\<rparr>" "- EINVAL"
      "dev_err (i2s_44k\<lparr>sample_rate := 44100, sclk_fs_divider := 64, mclk_fs_divider := 256\<rparr>)
        (Mclk_mismatch 11289600 12288000)" 1 17 4]
  by (simp add: i2s_48k_def i2s_44k_def fixed_clock_i2s_def set_src_clk_def
      csky_i2s_calc_fs_div_def csky_i2s_calc_mclk_div_def csky_i2s_calc_sclk_div_def
      csky_i2s_calc_refclk_div_def csky_i2s_calc_spdifclk_div_def dev_err_def EINVAL_def)

text \<open>
  C5, as amended. In a request whose source-clock step has passed, with the rate
  other than 0, the master clock a multiple of it that passes the ratio checks,
  and \<open>srcClk / (2 * M) - 1\<close> negative: \<^verbatim>\<open>csky_i2s_calc_mclk_div\<close> makes no
  round-trip check, prints nothing, stores the ratio and returns \<open>-1\<close>; and
  \<^verbatim>\<open>csky_i2s_set_clk_rate\<close> takes this negative value as a failure: it returns
  \<^verbatim>\<open>-EINVAL\<close> and writes no register.
\<close>

theorem negative_mclk_div_rejected:
  assumes "set_src_clk set_rate i2s rate = Inr s1"
      and "rate \<noteq> 0" "mclk s1 mod rate = 0"
      and "ratio_ok (s1\<lparr>sample_rate := rate, sclk_fs_divider := 64\<rparr>) (mclk s1 div rate)"
      and "spec_div (unat (src_clk s1)) (unat (mclk s1)) < 0"
  shows "csky_i2s_calc_mclk_div (s1\<lparr>sample_rate := rate, sclk_fs_divider := 64\<rparr>) rate word_size =
           Some (- 1, s1\<lparr>sample_rate := rate, sclk_fs_divider := 64,
                          mclk_fs_divider := mclk s1 div rate\<rparr>) \<and>
         csky_i2s_set_clk_rate set_rate i2s rate word_size =
           Some (- EINVAL, s1\<lparr>sample_rate := rate, sclk_fs_divider := 64,
                              mclk_fs_divider := mclk s1 div rate\<rparr>) \<and>
         regs s1 = regs i2s"
proof -
  let ?s2 = "s1\<lparr>sample_rate := rate, sclk_fs_divider := 64\<rparr>"
  have nz: "mclk s1 div rate \<noteq> 0"
    using assms(4) by (auto simp add: ratio_ok_64 split: if_splits)
  then have m0: "mclk s1 \<noteq> 0" by (rule ratio_nonzero_mclk)
  have c: "csky_i2s_calc_mclk_div ?s2 rate word_size =
             Some (- 1, ?s2\<lparr>mclk_fs_divider := mclk s1 div rate\<rparr>)"
    unfolding calc_mclk_div_cases Let_def using assms(2-5) m0 by simp
  have "csky_i2s_set_clk_rate set_rate i2s rate word_size =
          Some (- EINVAL, ?s2\<lparr>mclk_fs_divider := mclk s1 div rate\<rparr>)"
    unfolding set_clk_rate_run [OF assms(1)] c by simp
  with c set_src_clk_fields [OF assms(1)] show ?thesis by simp
qed

theorem negative_mclk_div_rejected_witness:
  "set_src_clk clk_exact i2s_slow 48000 = Inr i2s_slow \<and>
   (48000 :: u32) \<noteq> 0 \<and> mclk i2s_slow mod 48000 = 0 \<and>
   ratio_ok (i2s_slow\<lparr>sample_rate := 48000, sclk_fs_divider := 64\<rparr>) (mclk i2s_slow div 48000) \<and>
   spec_div (unat (src_clk i2s_slow)) (unat (mclk i2s_slow)) < 0 \<and>
   csky_i2s_set_clk_rate clk_exact i2s_slow 48000 16 =
     Some (- EINVAL,
       i2s_slow\<lparr>sample_rate := 48000, sclk_fs_divider := 64, mclk_fs_divider := 256\<rparr>)"
  using negative_mclk_div_rejected [of clk_exact i2s_slow 48000 i2s_slow 16]
  by (simp add: i2s_slow_def fixed_clock_i2s_def set_src_clk_def ratio_ok_def spec_div_def)

text \<open>
  The counterexample to C5 as stated: \<open>i2s_slow\<close> at 48000. The checks pass, the
  divider is \<open>-1\<close> and the calculator returns it, but the request fails with
  \<^verbatim>\<open>-EINVAL\<close> and no register is written.
\<close>

theorem negative_mclk_div_counterexample:
  "mclk i2s_slow mod 48000 = 0 \<and>
   ratio_ok (i2s_slow\<lparr>sample_rate := 48000, sclk_fs_divider := 64\<rparr>) (mclk i2s_slow div 48000) \<and>
   spec_div (unat (src_clk i2s_slow)) (unat (mclk i2s_slow)) = - 1 \<and>
   csky_i2s_calc_mclk_div (i2s_slow\<lparr>sample_rate := 48000, sclk_fs_divider := 64\<rparr>) 48000 16 =
     Some (- 1, i2s_slow\<lparr>sample_rate := 48000, sclk_fs_divider := 64, mclk_fs_divider := 256\<rparr>) \<and>
   csky_i2s_set_clk_rate clk_exact i2s_slow 48000 16 =
     Some (- EINVAL,
       i2s_slow\<lparr>sample_rate := 48000, sclk_fs_divider := 64, mclk_fs_divider := 256\<rparr>) \<and>
   regs (i2s_slow\<lparr>sample_rate := 48000, sclk_fs_divider := 64, mclk_fs_divider := 256\<rparr>) = []"
  by (simp add: i2s_slow_def fixed_clock_i2s_def ratio_ok_def spec_div_def
      csky_i2s_calc_mclk_div_def csky_i2s_set_clk_rate_def set_src_clk_def
      csky_i2s_calc_fs_div_def)

text \<open>
  C9. For generation v1, a request that returns 0 has stored 64 as the
  sclk-to-fs ratio, and the master clock is exactly 512 times the rate when the
  format is I2S or LEFT_J, and exactly 256 times the rate when it is RIGHT_J.
  The \<^verbatim>\<open>sclk_fs_divider\<close> that the state held before the call has no part in it:
  with any other value there, the request returns the same.
\<close>

theorem v1_rate_needs_fixed_ratio:
  assumes "\<not> has_mclk_sclk_div (params i2s)"
      and "csky_i2s_set_clk_rate set_rate i2s rate word_size = Some (0, i2s')"
  shows "sclk_fs_divider i2s' = 64 \<and>
         (audio_fmt i2s = SND_SOC_DAIFMT_I2S \<or> audio_fmt i2s = SND_SOC_DAIFMT_LEFT_J \<longrightarrow>
            unat (mclk i2s) = 512 * unat rate) \<and>
         (audio_fmt i2s = SND_SOC_DAIFMT_RIGHT_J \<longrightarrow> unat (mclk i2s) = 256 * unat rate) \<and>
         (\<forall>x. csky_i2s_set_clk_rate set_rate (i2s\<lparr>sclk_fs_divider := x\<rparr>) rate word_size =
                Some (0, i2s'))"
proof -
  obtain s1 where s1: "set_src_clk set_rate i2s rate = Inr s1"
  proof (cases "set_src_clk set_rate i2s rate")
    case (Inl p)
    obtain e s where p: "p = (e, s)" by (cases p)
    from Inl p have early: "set_src_clk set_rate i2s rate = Inl (e, s)" by simp
    from assms(2) set_clk_rate_early [OF early, of word_size] set_src_clk_Inl [OF early]
    show ?thesis by simp
  next
    case (Inr s)
    then show ?thesis by (rule that)
  qed
  note f = set_src_clk_fields [OF s1]
  let ?s2 = "s1\<lparr>sample_rate := rate, sclk_fs_divider := 64\<rparr>"
  obtain m s3 where m: "csky_i2s_calc_mclk_div ?s2 rate word_size = Some (m, s3)"
    and nn: "0 \<le> m"
  proof (cases "csky_i2s_calc_mclk_div ?s2 rate word_size")
    case None
    with assms(2) show ?thesis unfolding set_clk_rate_run [OF s1] by simp
  next
    case (Some p)
    obtain m s3 where p: "p = (m, s3)" by (cases p)
    have "0 \<le> m"
    proof (rule ccontr)
      assume "\<not> 0 \<le> m"
      with assms(2) Some p show False
        unfolding set_clk_rate_run [OF s1] by (simp add: EINVAL_def)
    qed
    with Some p show ?thesis by (intro that [of m s3]) simp_all
  qed
  note c = calc_mclk_div_nonneg [OF m nn]
  from c have mod0: "mclk i2s mod rate = 0"
    and s3: "s3 = ?s2\<lparr>mclk_fs_divider := mclk i2s div rate\<rparr>"
    using f by simp_all
  from c have ok: "ratio_ok ?s2 (mclk i2s div rate)" using f by simp
  have v1: "\<not> has_mclk_sclk_div (params s3)" using assms(1) f by (simp add: s3)
  have st: "sclk_fs_divider i2s' = 64"
  proof (cases "csky_i2s_calc_refclk_div s3 rate < 0")
    case True
    with assms(2) nn v1 show ?thesis
      unfolding set_clk_rate_run [OF s1] m by (simp add: EINVAL_def)
  next
    case False
    with assms(2) nn v1 have "i2s' = s3\<lparr>regs := regs s3 @
        [(IIS_DIV0_LEVEL, word_of_int m), (IIS_DIV1_LEVEL, 17), (IIS_DIV2_LEVEL, 31),
         (IIS_DIV3_LEVEL, word_of_int (csky_i2s_calc_refclk_div s3 rate))]\<rparr>"
      unfolding set_clk_rate_run [OF s1] m by simp
    then show ?thesis by (simp add: s3)
  qed
  have r8: "unat (mclk i2s) = 512 * unat rate"
    if "audio_fmt i2s = SND_SOC_DAIFMT_I2S \<or> audio_fmt i2s = SND_SOC_DAIFMT_LEFT_J"
  proof -
    have "mclk i2s div rate = 512" using ok that assms(1) f by (simp add: ratio_ok_64)
    from exact_ratio [OF mod0 this] show ?thesis by simp
  qed
  have r4: "unat (mclk i2s) = 256 * unat rate" if "audio_fmt i2s = SND_SOC_DAIFMT_RIGHT_J"
  proof -
    have "\<not> (audio_fmt i2s = SND_SOC_DAIFMT_I2S \<or> audio_fmt i2s = SND_SOC_DAIFMT_LEFT_J)"
      using that
      by (simp add: SND_SOC_DAIFMT_RIGHT_J_def SND_SOC_DAIFMT_I2S_def SND_SOC_DAIFMT_LEFT_J_def)
    then have "mclk i2s div rate = 256" using ok assms(1) f by (simp add: ratio_ok_64)
    from exact_ratio [OF mod0 this] show ?thesis by simp
  qed
  have any: "csky_i2s_set_clk_rate set_rate (i2s\<lparr>sclk_fs_divider := x\<rparr>) rate word_size =
               Some (0, i2s')" for x
    using assms(2)
    unfolding set_clk_rate_run [OF set_src_clk_sclk_fs [OF s1]] set_clk_rate_run [OF s1]
    by simp
  from st r8 r4 any show ?thesis by blast
qed

theorem v1_rate_needs_fixed_ratio_witness:
  "\<not> has_mclk_sclk_div (params i2s_v1) \<and> sclk_fs_divider i2s_v1 = 7 \<and>
   csky_i2s_set_clk_rate clk_exact i2s_v1 48000 16 =
     Some (0, i2s_v1\<lparr>sample_rate := 48000, sclk_fs_divider := 64, mclk_fs_divider := 512,
       regs := [(IIS_DIV0_LEVEL, 0), (IIS_DIV1_LEVEL, 17), (IIS_DIV2_LEVEL, 31),
                (IIS_DIV3_LEVEL, 7)]\<rparr>) \<and>
   audio_fmt i2s_v1 = SND_SOC_DAIFMT_I2S \<and> unat (mclk i2s_v1) = 512 * unat (48000 :: u32)"
  using v1_rate_needs_fixed_ratio [of i2s_v1 clk_exact 48000 16
      "i2s_v1\<lparr>sample_rate := 48000, sclk_fs_divider := 64, mclk_fs_divider := 512,
       regs := [(IIS_DIV0_LEVEL, 0), (IIS_DIV1_LEVEL, 17), (IIS_DIV2_LEVEL, 31),
                (IIS_DIV3_LEVEL, 7)]\<rparr>"]
  by (simp add: i2s_v1_def fixed_clock_i2s_def set_src_clk_def csky_i2s_calc_fs_div_def
      csky_i2s_calc_mclk_div_def csky_i2s_calc_sclk_div_def csky_i2s_calc_refclk_div_def
      csky_i2s_calc_spdifclk_div_def csky_i2s_set_clk_rate_def csky_i2s_writel_def
      SND_SOC_DAIFMT_I2S_def)

text \<open>
  C10, as amended. A request that fails leaves the registers as they were. When
  it fails in its source-clock step (a rate of neither family, or
  \<^verbatim>\<open>clk_set_rate\<close> failing) it returns that step's code, and no field of the
  state has changed; only the clock may be as \<^verbatim>\<open>clk_set_rate\<close> left it. When it
  fails later, that is in a divider calculator, it returns \<^verbatim>\<open>-EINVAL\<close> and is not
  atomic: \<^verbatim>\<open>sample_rate\<close> holds the requested rate and \<^verbatim>\<open>sclk_fs_divider\<close> holds
  64, and \<^verbatim>\<open>mclk_fs_divider\<close> holds the new ratio if the multiple and ratio checks
  had passed, and its old value otherwise.
\<close>

theorem failed_set_clk_rate_state:
  assumes "csky_i2s_set_clk_rate set_rate i2s rate word_size = Some (ret, i2s')"
      and "ret \<noteq> 0"
  shows "regs i2s' = regs i2s \<and>
         (case set_src_clk set_rate i2s rate of
            Inl (e, s) \<Rightarrow> ret = e \<and> i2s'\<lparr>i2s_clk := i2s_clk i2s\<rparr> = i2s
          | Inr s1 \<Rightarrow>
              ret = - EINVAL \<and> sample_rate i2s' = rate \<and> sclk_fs_divider i2s' = 64 \<and>
              mclk_fs_divider i2s' =
                (if mclk i2s mod rate = 0 \<and>
                    ratio_ok (i2s\<lparr>sclk_fs_divider := 64\<rparr>) (mclk i2s div rate)
                 then mclk i2s div rate else mclk_fs_divider i2s))"
proof (cases "set_src_clk set_rate i2s rate")
  case (Inl p)
  obtain e s where p: "p = (e, s)" by (cases p)
  from Inl p have early: "set_src_clk set_rate i2s rate = Inl (e, s)" by simp
  from set_src_clk_Inl [OF early] have s: "s\<lparr>i2s_clk := i2s_clk i2s\<rparr> = i2s" by simp
  then have "regs (s\<lparr>i2s_clk := i2s_clk i2s\<rparr>) = regs i2s" by simp
  then have "regs s = regs i2s" by simp
  with assms(1) set_clk_rate_early [OF early, of word_size] early s show ?thesis by simp
next
  case (Inr s1)
  note f = set_src_clk_fields [OF Inr]
  let ?s2 = "s1\<lparr>sample_rate := rate, sclk_fs_divider := 64\<rparr>"
  have rk: "ratio_ok ?s2 x = ratio_ok (i2s\<lparr>sclk_fs_divider := 64\<rparr>) x" for x
    using f by (simp add: ratio_ok_def)
  from assms obtain m s3 where m: "csky_i2s_calc_mclk_div ?s2 rate word_size = Some (m, s3)"
    and res: "ret = - EINVAL" "i2s' = s3"
    unfolding set_clk_rate_run [OF Inr]
    by (auto split: option.splits if_splits)
  show ?thesis
  proof (cases "m < 0")
    case True
    from calc_mclk_div_neg [OF m True] f res Inr show ?thesis by (simp add: rk)
  next
    case False
    then have "0 \<le> m" by simp
    from calc_mclk_div_nonneg [OF m this] f res Inr show ?thesis by (simp add: rk)
  qed
qed

theorem failed_set_clk_rate_state_witness:
  "csky_i2s_set_clk_rate clk_exact i2s_44k 44100 16 =
     Some (- EINVAL,
       dev_err (i2s_44k\<lparr>sample_rate := 44100, sclk_fs_divider := 64, mclk_fs_divider := 256\<rparr>)
         (Mclk_mismatch 11289600 12288000)) \<and>
   - EINVAL \<noteq> 0 \<and> set_src_clk clk_exact i2s_44k 44100 = Inr i2s_44k \<and>
   sample_rate i2s_44k = 0 \<and> sclk_fs_divider i2s_44k = 0 \<and> mclk_fs_divider i2s_44k = 0 \<and>
   mclk_fs_divider
     (dev_err (i2s_44k\<lparr>sample_rate := 44100, sclk_fs_divider := 64, mclk_fs_divider := 256\<rparr>)
        (Mclk_mismatch 11289600 12288000)) = mclk i2s_44k div 44100 \<and>
   csky_i2s_set_clk_rate clk_busy i2s_own_clk 48000 16 = Some (- 16, i2s_own_clk) \<and>
   set_src_clk clk_busy i2s_own_clk 48000 = Inl (- 16, i2s_own_clk)"
  using failed_set_clk_rate_state [of clk_exact i2s_44k 44100 16 "- EINVAL"
      "dev_err (i2s_44k\<lparr>sample_rate := 44100, sclk_fs_divider := 64, mclk_fs_divider := 256\<rparr>)
        (Mclk_mismatch 11289600 12288000)"]
    failed_set_clk_rate_state [of clk_busy i2s_own_clk 48000 16 "- 16" i2s_own_clk]
  by (simp add: i2s_44k_def i2s_own_clk_def i2s_48k_def clk_busy_def fixed_clock_i2s_def
      set_src_clk_def csky_i2s_calc_fs_div_def csky_i2s_calc_mclk_div_def
      csky_i2s_set_clk_rate_def dev_err_def EINVAL_def ratio_ok_def)

text \<open>
  The counterexample to C10 as stated: \<open>i2s_own_clk\<close> at the rate 12000. The
  request fails in its source-clock step, and neither the rate nor the ratio 64
  has been stored.
\<close>

theorem failed_set_clk_rate_state_counterexample:
  "csky_i2s_set_clk_rate clk_exact i2s_own_clk 12000 16 = Some (- EINVAL, i2s_own_clk) \<and>
   - EINVAL \<noteq> 0 \<and> sample_rate i2s_own_clk \<noteq> 12000 \<and> sclk_fs_divider i2s_own_clk \<noteq> 64"
  by (simp add: i2s_own_clk_def i2s_48k_def fixed_clock_i2s_def set_src_clk_def
      csky_i2s_set_clk_rate_def EINVAL_def)

end
